theory Spec2Isabelle
  imports Complex_Main "HOL-Library.AList"
begin

section \<open>Python values, errors and library functions\<close>

text \<open>
  The load tester (\<open>src/demo/simulation/load_tester.py\<close>) is embedded function by function.
  Python's \<open>float\<close> is read as \<open>real\<close> and Python's unbounded \<open>int\<close> as \<open>int\<close>; rounding
  of IEEE doubles is not part of the model. Clock readings (\<open>time.time()\<close>) and the result of the
  HTTP call are inputs of the functions that use them.
\<close>

text \<open>
  An exception object raised inside the \<open>try\<close> block of \<open>_make_request\<close>. The three
  \<open>except\<close> clauses only look at the classes the object is an instance of, at its type name
  and at \<open>str(e)\<close>, so these are the fields of the record.
\<close>

record py_exception =
  type_name :: string
  message :: string
  is_timeout_error :: bool
  is_client_error :: bool
  is_exception :: bool

datatype py_error =
    ZeroDivisionError
  | IndexError
  | StatisticsError
  | ValueError
  | Uncaught py_exception

text \<open>\<open>int(x)\<close> on a float truncates toward zero.\<close>

definition py_int :: "real \<Rightarrow> int" where
  "py_int x = (if 0 \<le> x then \<lfloor>x\<rfloor> else \<lceil>x\<rceil>)"

text \<open>\<open>a / b\<close> raises \<open>ZeroDivisionError\<close> when \<open>b\<close> is zero.\<close>

definition py_truediv :: "real \<Rightarrow> real \<Rightarrow> py_error + real" where
  "py_truediv a b = (if b = 0 then Inl ZeroDivisionError else Inr (a / b))"

text \<open>
  \<open>xs[i]\<close> on a list: an index from \<open>-len\<close> up to \<open>-1\<close> is taken from the end, any index
  outside \<open>-len .. len - 1\<close> raises \<open>IndexError\<close>.
\<close>

definition py_getitem :: "'a list \<Rightarrow> int \<Rightarrow> py_error + 'a" where
  "py_getitem xs i =
     (if 0 \<le> i \<and> i < int (length xs) then Inr (xs ! nat i)
      else if i < 0 \<and> - int (length xs) \<le> i then Inr (xs ! nat (int (length xs) + i))
      else Inl IndexError)"

text \<open>
  \<open>statistics.mean\<close> and \<open>statistics.median\<close> of the standard library: both raise
  \<open>StatisticsError\<close> on empty data; the median of an even number of points is the mean of the
  two middle points of the sorted data.
\<close>

definition statistics_mean :: "real list \<Rightarrow> py_error + real" where
  "statistics_mean data =
     (if data = [] then Inl StatisticsError
      else Inr (sum_list data / real (length data)))"

definition statistics_median :: "real list \<Rightarrow> py_error + real" where
  "statistics_median data0 =
     (let data = sort data0; n = length data
      in if n = 0 then Inl StatisticsError
         else if n mod 2 = 1 then Inr (data ! (n div 2))
         else let i = n div 2 in Inr ((data ! (i - 1) + data ! i) / 2))"

text \<open>\<open>str(n)\<close> for an integer, as the f-string \<open>f"HTTP {result.status_code}"\<close> formats it.\<close>

definition digit_char :: "nat \<Rightarrow> char" where
  "digit_char d = ''0123456789'' ! d"

fun str_nat :: "nat \<Rightarrow> string" where
  "str_nat n = (if n < 10 then [digit_char n] else str_nat (n div 10) @ [digit_char (n mod 10)])"

declare str_nat.simps [simp del]

definition str_int :: "int \<Rightarrow> string" where
  "str_int i = (if i < 0 then CHR ''-'' # str_nat (nat (- i)) else str_nat (nat i))"

text \<open>\<open>s.rstrip("/")\<close> removes every trailing slash.\<close>

definition rstrip_slash :: "string \<Rightarrow> string" where
  "rstrip_slash s = rev (dropWhile (\<lambda>c. c = CHR ''/'') (rev s))"

section \<open>TestResult and TestStats\<close>

record TestResult =
  success :: bool
  latency_ms :: real
  status_code :: int
  error :: string
  timestamp :: real

text \<open>
  The \<open>errors\<close> dictionary is an association list in insertion order with distinct keys, as a
  Python \<open>dict\<close> is.
\<close>

record TestStats =
  total_requests :: int
  successful_requests :: int
  failed_requests :: int
  latencies :: "real list"
  errors :: "(string \<times> int) list"
  start_time :: real
  end_time :: real

text \<open>\<open>TestStats()\<close>: every field at its default.\<close>

definition TestStats_new :: TestStats where
  "TestStats_new =
     \<lparr>total_requests = 0, successful_requests = 0, failed_requests = 0,
      latencies = [], errors = [], start_time = 0, end_time = 0\<rparr>"

definition success_rate :: "TestStats \<Rightarrow> real" where
  "success_rate st =
     (if total_requests st = 0 then 0
      else real_of_int (successful_requests st) / real_of_int (total_requests st) * 100)"

definition avg_latency :: "TestStats \<Rightarrow> py_error + real" where
  "avg_latency st =
     (if latencies st = [] then Inr 0 else statistics_mean (latencies st))"

definition p50_latency :: "TestStats \<Rightarrow> py_error + real" where
  "p50_latency st =
     (if latencies st = [] then Inr 0 else statistics_median (latencies st))"

definition p95_latency :: "TestStats \<Rightarrow> py_error + real" where
  "p95_latency st =
     (if latencies st = [] then Inr 0
      else let sorted_latencies = sort (latencies st);
               idx = py_int (real (length sorted_latencies) * 0.95)
           in py_getitem sorted_latencies idx)"

definition p99_latency :: "TestStats \<Rightarrow> py_error + real" where
  "p99_latency st =
     (if latencies st = [] then Inr 0
      else let sorted_latencies = sort (latencies st);
               idx = py_int (real (length sorted_latencies) * 0.99)
           in py_getitem sorted_latencies (min idx (int (length sorted_latencies) - 1)))"

definition requests_per_second :: "TestStats \<Rightarrow> real" where
  "requests_per_second st =
     (let duration = end_time st - start_time st
      in if duration = 0 then 0 else real_of_int (total_requests st) / duration)"

section \<open>LoadTester\<close>

record LoadTester =
  target_url :: string
  rps :: real
  duration :: int
  concurrent_limit :: int
  stats :: TestStats

text \<open>
  \<open>LoadTester.__init__\<close> stores its arguments unchecked. Its last statement builds
  \<open>asyncio.Semaphore(concurrent_limit)\<close>, whose constructor raises \<open>ValueError\<close> for a
  negative value; that is the only way the constructor fails.
\<close>

definition LoadTester_init :: "string \<Rightarrow> real \<Rightarrow> int \<Rightarrow> int \<Rightarrow> py_error + LoadTester" where
  "LoadTester_init url requests_per_sec duration_seconds limit =
     (if limit < 0 then Inl ValueError
      else Inr \<lparr>target_url = rstrip_slash url, rps = requests_per_sec,
                duration = duration_seconds, concurrent_limit = limit,
                stats = TestStats_new\<rparr>)"

subsection \<open>One request\<close>

text \<open>
  What the \<open>try\<close> block of \<open>_make_request\<close> does: it either reaches its \<open>return\<close> with the
  status of the response, or one of its \<open>await\<close>s raises. \<open>started\<close> is the clock at entry,
  \<open>finished\<close> the clock when the latency is taken and \<open>stamp\<close> the clock when the
  \<open>TestResult\<close> is built (the default of its \<open>timestamp\<close> field).
\<close>

datatype attempt = Response int | Raised py_exception

record request_event =
  outcome :: attempt
  started :: real
  finished :: real
  stamp :: real

text \<open>
  The \<open>except\<close> clauses are tried in the order of the source: \<open>asyncio.TimeoutError\<close>, then
  \<open>aiohttp.ClientError\<close>, then \<open>Exception\<close>. An exception that matches none of them leaves
  the function.
\<close>

definition make_request :: "request_event \<Rightarrow> py_error + TestResult" where
  "make_request ev =
     (let latency = (finished ev - started ev) * 1000
      in case outcome ev of
           Response status \<Rightarrow>
             Inr \<lparr>success = (status = 200), latency_ms = latency,
                  status_code = status, error = [], timestamp = stamp ev\<rparr>
         | Raised e \<Rightarrow>
             if is_timeout_error e then
               Inr \<lparr>success = False, latency_ms = latency,
                    status_code = 0, error = ''timeout'', timestamp = stamp ev\<rparr>
             else if is_client_error e then
               Inr \<lparr>success = False, latency_ms = latency,
                    status_code = 0, error = type_name e, timestamp = stamp ev\<rparr>
             else if is_exception e then
               Inr \<lparr>success = False, latency_ms = latency,
                    status_code = 0, error = message e, timestamp = stamp ev\<rparr>
             else Inl (Uncaught e))"

text \<open>
  An attempt that \<open>_make_request\<close> turns into a result: a response, or an exception that one
  of the three handlers catches.
\<close>

fun caught :: "attempt \<Rightarrow> bool" where
  "caught (Response status) = True"
| "caught (Raised e) = (is_timeout_error e \<or> is_client_error e \<or> is_exception e)"

subsection \<open>One worker\<close>

text \<open>
  \<open>_worker\<close> computes its pacing interval from \<open>self.rps\<close> and then loops while the clock is
  before its deadline. The list of events has one entry for each iteration the clock admits.
  \<open>generate_intent\<close> always returns the keys that the loop deletes, so only the request can
  raise inside the loop.
\<close>

fun worker_loop :: "request_event list \<Rightarrow> TestResult list \<Rightarrow> py_error + TestResult list" where
  "worker_loop [] results = Inr results"
| "worker_loop (ev # evs) results =
     (case make_request ev of
        Inl e \<Rightarrow> Inl e
      | Inr result \<Rightarrow> worker_loop evs (results @ [result]))"

definition worker_interval :: "LoadTester \<Rightarrow> py_error + real" where
  "worker_interval t = py_truediv 1 (rps t)"

definition worker :: "LoadTester \<Rightarrow> request_event list \<Rightarrow> TestResult list \<Rightarrow> py_error + TestResult list" where
  "worker t evs results =
     (case worker_interval t of
        Inl e \<Rightarrow> Inl e
      | Inr interval \<Rightarrow> worker_loop evs results)"

subsection \<open>The run: worker plan and aggregation\<close>

text \<open>
  The start of \<open>run\<close>: the number of workers and the rate of each, computed before any task
  is created. The result is the tester as the workers see it (\<open>self.rps = worker_rps\<close>).
\<close>

definition plan_workers :: "LoadTester \<Rightarrow> py_error + (int \<times> LoadTester)" where
  "plan_workers t =
     (let num_workers = min (py_int (rps t / 10) + 1) 50
      in case py_truediv (rps t) (real_of_int num_workers) of
           Inl e \<Rightarrow> Inl e
         | Inr worker_rps \<Rightarrow> Inr (num_workers, t\<lparr>rps := worker_rps\<rparr>))"

text \<open>One task for each element of \<open>range(num_workers)\<close>; the list holds the rate of each.\<close>

definition worker_rates :: "int \<Rightarrow> LoadTester \<Rightarrow> real list" where
  "worker_rates num_workers t = replicate (nat num_workers) (rps t)"

text \<open>The aggregation loop at the end of \<open>run\<close>.\<close>

definition error_key :: "TestResult \<Rightarrow> string" where
  "error_key result =
     (if error result \<noteq> [] then error result else ''HTTP '' @ str_int (status_code result))"

definition errors_get :: "(string \<times> int) list \<Rightarrow> string \<Rightarrow> int" where
  "errors_get d k = (case map_of d k of None \<Rightarrow> 0 | Some v \<Rightarrow> v)"

definition aggregate_step :: "TestStats \<Rightarrow> TestResult \<Rightarrow> TestStats" where
  "aggregate_step st result =
     (let st1 = st\<lparr>total_requests := total_requests st + 1,
                   latencies := latencies st @ [latency_ms result]\<rparr>
      in if success result
         then st1\<lparr>successful_requests := successful_requests st1 + 1\<rparr>
         else st1\<lparr>failed_requests := failed_requests st1 + 1,
                  errors := AList.update (error_key result)
                              (errors_get (errors st1) (error_key result) + 1) (errors st1)\<rparr>)"

fun aggregate_loop :: "TestResult list \<Rightarrow> TestStats \<Rightarrow> TestStats" where
  "aggregate_loop [] st = st"
| "aggregate_loop (result # results) st = aggregate_loop results (aggregate_step st result)"

text \<open>
  The statistics that \<open>run\<close> returns for the collected results: a fresh \<open>TestStats\<close> with the
  two clock readings, then the loop.
\<close>

definition aggregate :: "TestResult list \<Rightarrow> real \<Rightarrow> real \<Rightarrow> TestStats" where
  "aggregate results t_start t_end =
     aggregate_loop results (TestStats_new\<lparr>start_time := t_start, end_time := t_end\<rparr>)"

section \<open>Auxiliary facts\<close>

subsection \<open>Indices and percentiles\<close>

lemma py_int_nonneg: "0 \<le> x \<Longrightarrow> py_int x = \<lfloor>x\<rfloor>"
  by (simp add: py_int_def)

lemma floor_scaled_bounds:
  assumes "0 < n" "0 \<le> p" "p < 1"
  shows "0 \<le> \<lfloor>real n * p\<rfloor> \<and> \<lfloor>real n * p\<rfloor> < int n"
proof -
  have "0 \<le> real n * p" using assms by simp
  then have a: "0 \<le> \<lfloor>real n * p\<rfloor>" by simp
  have "real n * p < real n * 1" using assms by (intro mult_strict_left_mono) auto
  then have "real n * p < real n" by simp
  then have "\<lfloor>real n * p\<rfloor> < int n" by (simp add: floor_less_iff)
  with a show ?thesis by simp
qed

lemma py_getitem_in_range:
  "0 \<le> i \<Longrightarrow> i < int (length xs) \<Longrightarrow> py_getitem xs i = Inr (xs ! nat i)"
  by (simp add: py_getitem_def)

lemma p95_nearest_rank:
  assumes "latencies st \<noteq> []"
  shows "p95_latency st = Inr (sort (latencies st) ! nat \<lfloor>real (length (latencies st)) * 0.95\<rfloor>)"
proof -
  have n: "0 < length (latencies st)" using assms by simp
  have b: "0 \<le> \<lfloor>real (length (latencies st)) * 0.95\<rfloor> \<and> \<lfloor>real (length (latencies st)) * 0.95\<rfloor> < int (length (latencies st))"
    using floor_scaled_bounds [OF n, of "0.95"] by simp
  show ?thesis using assms b
    by (simp add: p95_latency_def Let_def py_int_nonneg py_getitem_in_range)
qed

lemma p99_nearest_rank:
  assumes "latencies st \<noteq> []"
  shows "p99_latency st = Inr (sort (latencies st) ! nat (min \<lfloor>real (length (latencies st)) * 0.99\<rfloor> (int (length (latencies st)) - 1)))"
proof -
  have n: "0 < length (latencies st)" using assms by simp
  have b: "0 \<le> \<lfloor>real (length (latencies st)) * 0.99\<rfloor> \<and> \<lfloor>real (length (latencies st)) * 0.99\<rfloor> < int (length (latencies st))"
    using floor_scaled_bounds [OF n, of "0.99"] by simp
  show ?thesis using assms b
    by (simp add: p99_latency_def Let_def py_int_nonneg py_getitem_in_range)
qed

lemma sort_Nil_iff: "sort xs = [] \<longleftrightarrow> xs = []"
  using length_sort [of "\<lambda>x. x" xs] by (metis length_0_conv)

lemma p50_median:
  assumes "latencies st \<noteq> []"
  shows "p50_latency st =
     Inr (let s = sort (latencies st); n = length s
          in if odd n then s ! (n div 2) else (s ! (n div 2 - 1) + s ! (n div 2)) / 2)"
  using assms by (simp add: p50_latency_def statistics_median_def Let_def odd_iff_mod_2_eq_one sort_Nil_iff)

lemma half_index: "nat \<lfloor>real n * 0.5\<rfloor> = n div 2"
proof -
  have "real n * 0.5 = real n / real 2" by simp
  then have "\<lfloor>real n * 0.5\<rfloor> = int (n div 2)"
    by (simp only: floor_divide_of_nat_eq)
  then show ?thesis by simp
qed

subsection \<open>The aggregation loop\<close>

lemma aggregate_step_total: "total_requests (aggregate_step st r) = total_requests st + 1"
  by (simp add: aggregate_step_def Let_def)

lemma aggregate_step_latencies: "latencies (aggregate_step st r) = latencies st @ [latency_ms r]"
  by (simp add: aggregate_step_def Let_def)

lemma aggregate_step_successful:
  "successful_requests (aggregate_step st r) = successful_requests st + (if success r then 1 else 0)"
  by (simp add: aggregate_step_def Let_def)

lemma aggregate_step_failed:
  "failed_requests (aggregate_step st r) = failed_requests st + (if success r then 0 else 1)"
  by (simp add: aggregate_step_def Let_def)

lemma aggregate_step_times:
  "start_time (aggregate_step st r) = start_time st \<and> end_time (aggregate_step st r) = end_time st"
  by (simp add: aggregate_step_def Let_def)

lemma aggregate_step_errors:
  "errors (aggregate_step st r) =
     (if success r then errors st
      else AList.update (error_key r) (errors_get (errors st) (error_key r) + 1) (errors st))"
  by (simp add: aggregate_step_def Let_def)

lemma aggregate_loop_total:
  "total_requests (aggregate_loop rs st) = total_requests st + int (length rs)"
  by (induction rs arbitrary: st) (simp_all add: aggregate_step_total)

lemma aggregate_loop_latencies:
  "latencies (aggregate_loop rs st) = latencies st @ map latency_ms rs"
  by (induction rs arbitrary: st) (simp_all add: aggregate_step_latencies)

lemma aggregate_loop_successful:
  "successful_requests (aggregate_loop rs st) =
     successful_requests st + int (length (filter success rs))"
  by (induction rs arbitrary: st) (simp_all add: aggregate_step_successful)

lemma aggregate_loop_failed:
  "failed_requests (aggregate_loop rs st) =
     failed_requests st + int (length (filter (\<lambda>r. \<not> success r) rs))"
  by (induction rs arbitrary: st) (simp_all add: aggregate_step_failed)

lemma aggregate_loop_times:
  "start_time (aggregate_loop rs st) = start_time st \<and> end_time (aggregate_loop rs st) = end_time st"
  by (induction rs arbitrary: st) (simp_all add: aggregate_step_times)

lemma filter_split_length:
  "length (filter P xs) + length (filter (\<lambda>x. \<not> P x) xs) = length xs"
  by (induction xs) simp_all

lemma errors_get_update:
  "errors_get (AList.update k v d) k' = (if k' = k then v else errors_get d k')"
  by (simp add: errors_get_def update_conv')

lemma sum_values_update:
  "distinct (map fst d) \<Longrightarrow>
     sum_list (map snd (AList.update k v d)) = sum_list (map snd d) - errors_get d k + v"
proof (induction d)
  case Nil
  then show ?case by (simp add: errors_get_def)
next
  case (Cons a d)
  obtain k0 v0 where a: "a = (k0, v0)" by (cases a)
  show ?case
  proof (cases "k0 = k")
    case True
    then show ?thesis using a by (simp add: errors_get_def)
  next
    case False
    have "errors_get (a # d) k = errors_get d k" using False a by (simp add: errors_get_def)
    then show ?thesis using Cons False a by simp
  qed
qed

lemma aggregate_step_distinct:
  "distinct (map fst (errors st)) \<Longrightarrow> distinct (map fst (errors (aggregate_step st r)))"
  by (simp add: aggregate_step_errors distinct_update)

lemma aggregate_step_sum:
  "distinct (map fst (errors st)) \<Longrightarrow>
     sum_list (map snd (errors (aggregate_step st r))) =
       sum_list (map snd (errors st)) + (if success r then 0 else 1)"
  by (simp add: aggregate_step_errors sum_values_update)

lemma aggregate_step_get:
  "errors_get (errors (aggregate_step st r)) k =
     errors_get (errors st) k + (if \<not> success r \<and> error_key r = k then 1 else 0)"
  by (simp add: aggregate_step_errors errors_get_update)

lemma aggregate_loop_distinct:
  "distinct (map fst (errors st)) \<Longrightarrow> distinct (map fst (errors (aggregate_loop rs st)))"
  by (induction rs arbitrary: st) (simp_all add: aggregate_step_distinct)

lemma aggregate_loop_sum:
  "distinct (map fst (errors st)) \<Longrightarrow>
     sum_list (map snd (errors (aggregate_loop rs st))) =
       sum_list (map snd (errors st)) + int (length (filter (\<lambda>r. \<not> success r) rs))"
  by (induction rs arbitrary: st) (simp_all add: aggregate_step_distinct aggregate_step_sum)

lemma aggregate_loop_get:
  "errors_get (errors (aggregate_loop rs st)) k =
     errors_get (errors st) k + int (length (filter (\<lambda>r. \<not> success r \<and> error_key r = k) rs))"
  by (induction rs arbitrary: st) (simp_all add: aggregate_step_get)

subsection \<open>Derived statistics\<close>

lemma success_rate_range:
  assumes "0 \<le> successful_requests st" "successful_requests st \<le> total_requests st"
  shows "0 \<le> success_rate st \<and> success_rate st \<le> 100"
proof (cases "total_requests st = 0")
  case True
  then show ?thesis by (simp add: success_rate_def)
next
  case False
  define q where "q = real_of_int (successful_requests st) / real_of_int (total_requests st)"
  have pos: "0 < real_of_int (total_requests st)" using False assms by simp
  have "q \<le> 1" using assms pos by (simp add: q_def divide_le_eq_1)
  moreover have "0 \<le> q" using assms pos by (simp add: q_def)
  moreover have "success_rate st = q * 100"
    using False unfolding success_rate_def q_def by (simp only: if_False)
  ultimately show ?thesis by simp
qed

lemma aggregate_counts:
  "total_requests (aggregate rs a b) = int (length rs) \<and>
   successful_requests (aggregate rs a b) = int (length (filter success rs)) \<and>
   failed_requests (aggregate rs a b) = int (length (filter (\<lambda>r. \<not> success r) rs)) \<and>
   latencies (aggregate rs a b) = map latency_ms rs \<and>
   start_time (aggregate rs a b) = a \<and> end_time (aggregate rs a b) = b"
  by (simp add: aggregate_def aggregate_loop_total aggregate_loop_successful
      aggregate_loop_failed aggregate_loop_latencies aggregate_loop_times TestStats_new_def)

subsection \<open>The worker plan\<close>

lemma worker_count_positive:
  assumes "0 < r"
  shows "py_int (r / 10) = \<lfloor>r / 10\<rfloor> \<and> 1 \<le> min (\<lfloor>r / 10\<rfloor> + 1) 50"
proof -
  have "0 \<le> r / 10" using assms by simp
  then have "py_int (r / 10) = \<lfloor>r / 10\<rfloor>" and "0 \<le> \<lfloor>r / 10\<rfloor>"
    by (simp_all add: py_int_def)
  then show ?thesis by simp
qed

lemma plan_workers_positive:
  assumes "0 < rps t"
  shows "plan_workers t =
           Inr (min (\<lfloor>rps t / 10\<rfloor> + 1) 50,
                t\<lparr>rps := rps t / real_of_int (min (\<lfloor>rps t / 10\<rfloor> + 1) 50)\<rparr>)"
proof -
  define n where "n = min (\<lfloor>rps t / 10\<rfloor> + 1) 50"
  have pi: "py_int (rps t / 10) = \<lfloor>rps t / 10\<rfloor>"
    using worker_count_positive [OF assms] by (rule conjunct1)
  have "1 \<le> n"
    unfolding n_def using worker_count_positive [OF assms] by (rule conjunct2)
  then have "real_of_int n \<noteq> 0" by simp
  then have "py_truediv (rps t) (real_of_int n) = Inr (rps t / real_of_int n)"
    by (simp add: py_truediv_def)
  then have "plan_workers t = Inr (n, t\<lparr>rps := rps t / real_of_int n\<rparr>)"
    unfolding plan_workers_def pi n_def [symmetric] by (simp add: Let_def)
  then show ?thesis by (simp only: n_def)
qed

subsection \<open>Requests and workers\<close>

lemma str_int_404: "str_int 404 = ''404''"
  by (simp add: str_int_def str_nat.simps digit_char_def)

lemma make_request_response:
  "outcome ev = Response status \<Longrightarrow>
     make_request ev =
       Inr \<lparr>success = (status = 200), latency_ms = (finished ev - started ev) * 1000,
            status_code = status, error = [], timestamp = stamp ev\<rparr>"
  by (simp add: make_request_def Let_def)

lemma make_request_raised:
  assumes "outcome ev = Raised e" "caught (outcome ev)"
  shows "make_request ev =
           Inr \<lparr>success = False, latency_ms = (finished ev - started ev) * 1000,
                status_code = 0,
                error = (if is_timeout_error e then ''timeout''
                         else if is_client_error e then type_name e else message e),
                timestamp = stamp ev\<rparr>"
  using assms by (auto simp add: make_request_def Let_def)

lemma make_request_caught:
  assumes "caught (outcome ev)"
  shows "\<exists>r. make_request ev = Inr r \<and>
           (\<forall>e. outcome ev = Raised e \<longrightarrow>
              \<not> success r \<and> status_code r = 0 \<and>
              error r = (if is_timeout_error e then ''timeout''
                         else if is_client_error e then type_name e else message e))"
proof (cases "outcome ev")
  case (Response status)
  then show ?thesis by (simp add: make_request_def Let_def)
next
  case (Raised e)
  then show ?thesis using make_request_raised [OF Raised assms] by simp
qed

lemma worker_loop_caught:
  assumes "\<forall>ev \<in> set evs. caught (outcome ev)"
  shows "\<exists>new. worker_loop evs results = Inr (results @ new) \<and> length new = length evs \<and>
           (\<forall>i < length evs. make_request (evs ! i) = Inr (new ! i))"
  using assms
proof (induction evs arbitrary: results)
  case Nil
  then show ?case by simp
next
  case (Cons ev evs)
  from Cons.prems have "caught (outcome ev)" by simp
  then obtain r where r: "make_request ev = Inr r"
    using make_request_caught by blast
  from Cons.prems have "\<forall>ev \<in> set evs. caught (outcome ev)" by simp
  from Cons.IH [OF this, of "results @ [r]"]
  obtain new where new: "worker_loop evs (results @ [r]) = Inr ((results @ [r]) @ new)"
      "length new = length evs" "\<forall>i < length evs. make_request (evs ! i) = Inr (new ! i)"
    by blast
  have "worker_loop (ev # evs) results = Inr (results @ (r # new))"
    using r new(1) by simp
  moreover have "length (r # new) = length (ev # evs)" using new(2) by simp
  moreover have "\<forall>i < length (ev # evs). make_request ((ev # evs) ! i) = Inr ((r # new) ! i)"
    using r new(3) by (auto simp add: nth_Cons split: nat.splits)
  ultimately show ?case by blast
qed

section \<open>The claims\<close>

subsection \<open>C1: percentiles\<close>

text \<open>
  C1, as stated, fails for \<open>p50_latency\<close>: the property calls \<open>statistics.median\<close>, which
  for a sample of even length returns the mean of the two middle points. For the latencies
  \<open>[10, 20]\<close> the code returns 15, the element at index \<open>floor(2 \<times> 0.5) = 1\<close> of the sorted
  sample is 20.
\<close>

theorem p50_nearest_rank_counterexample:
  "latencies (TestStats_new\<lparr>latencies := [10, 20]\<rparr>) \<noteq> [] \<and>
   p50_latency (TestStats_new\<lparr>latencies := [10, 20]\<rparr>) = Inr 15 \<and>
   sort (latencies (TestStats_new\<lparr>latencies := [10, 20]\<rparr>)) !
     nat \<lfloor>real (length (latencies (TestStats_new\<lparr>latencies := [10, 20]\<rparr>))) * 0.5\<rfloor> = 20"
  by (simp add: p50_latency_def statistics_median_def Let_def TestStats_new_def)

text \<open>
  C1, amended: for every non-empty sample, \<open>p95_latency\<close> is the element of the sorted sample
  at index \<open>floor(len \<times> 0.95)\<close>, \<open>p99_latency\<close> the element at index
  \<open>min(floor(len \<times> 0.99), len - 1)\<close>, and \<open>p50_latency\<close> is the median: the element at
  index \<open>floor(len \<times> 0.5)\<close> when the length is odd, the mean of the two middle elements when
  it is even. No index is out of range.
\<close>

theorem percentiles_as_computed:
  assumes "latencies st \<noteq> []"
  shows "p95_latency st =
           Inr (sort (latencies st) ! nat \<lfloor>real (length (latencies st)) * 0.95\<rfloor>) \<and>
         p99_latency st =
           Inr (sort (latencies st) !
                  nat (min \<lfloor>real (length (latencies st)) * 0.99\<rfloor> (int (length (latencies st)) - 1))) \<and>
         p50_latency st =
           Inr (if odd (length (latencies st))
                then sort (latencies st) ! nat \<lfloor>real (length (latencies st)) * 0.5\<rfloor>
                else (sort (latencies st) ! (length (latencies st) div 2 - 1) +
                      sort (latencies st) ! (length (latencies st) div 2)) / 2)"
proof -
  have "p50_latency st =
           Inr (if odd (length (latencies st))
                then sort (latencies st) ! (length (latencies st) div 2)
                else (sort (latencies st) ! (length (latencies st) div 2 - 1) +
                      sort (latencies st) ! (length (latencies st) div 2)) / 2)"
    using p50_median [OF assms] by (simp add: Let_def)
  then show ?thesis
    using p95_nearest_rank [OF assms] p99_nearest_rank [OF assms]
    by (simp only: half_index simp_thms)
qed

text \<open>
  The samples of the specification: \<open>[10, 20, 30, 40, 50]\<close> gives 30, 50 and 50, the single
  latency 42 gives 42 three times; and an even sample for the median.
\<close>

theorem percentiles_as_computed_witness:
  "latencies (TestStats_new\<lparr>latencies := [10, 20, 30, 40, 50]\<rparr>) \<noteq> [] \<and>
   p50_latency (TestStats_new\<lparr>latencies := [10, 20, 30, 40, 50]\<rparr>) = Inr 30 \<and>
   p95_latency (TestStats_new\<lparr>latencies := [10, 20, 30, 40, 50]\<rparr>) = Inr 50 \<and>
   p99_latency (TestStats_new\<lparr>latencies := [10, 20, 30, 40, 50]\<rparr>) = Inr 50 \<and>
   p50_latency (TestStats_new\<lparr>latencies := [42]\<rparr>) = Inr 42 \<and>
   p95_latency (TestStats_new\<lparr>latencies := [42]\<rparr>) = Inr 42 \<and>
   p99_latency (TestStats_new\<lparr>latencies := [42]\<rparr>) = Inr 42 \<and>
   p50_latency (TestStats_new\<lparr>latencies := [20, 10]\<rparr>) = Inr 15"
  using percentiles_as_computed [of "TestStats_new\<lparr>latencies := [10, 20, 30, 40, 50]\<rparr>"]
        percentiles_as_computed [of "TestStats_new\<lparr>latencies := [42]\<rparr>"]
        percentiles_as_computed [of "TestStats_new\<lparr>latencies := [20, 10]\<rparr>"]
  by (simp add: TestStats_new_def)

subsection \<open>C2: validation of the configuration\<close>

text \<open>
  C2, as stated, fails: nothing checks \<open>target_rps\<close>, \<open>duration_seconds\<close> or a zero
  \<open>concurrency_limit\<close>. A tester with \<open>target_rps = 0\<close> is constructed, \<open>run\<close> plans one
  worker with rate \<open>0 / 1 = 0\<close>, and that worker, once started, raises
  \<open>ZeroDivisionError\<close> at \<open>interval = 1.0 / self.rps\<close>. A tester with
  \<open>duration_seconds = 0\<close> and \<open>concurrency_limit = 0\<close> is constructed and planned as well.
\<close>

theorem unvalidated_config_counterexample:
  "LoadTester_init ''http://localhost:8080'' 0 60 100 =
     Inr \<lparr>target_url = ''http://localhost:8080'', rps = 0, duration = 60,
          concurrent_limit = 100, stats = TestStats_new\<rparr> \<and>
   plan_workers \<lparr>target_url = ''http://localhost:8080'', rps = 0, duration = 60,
          concurrent_limit = 100, stats = TestStats_new\<rparr> =
     Inr (1, \<lparr>target_url = ''http://localhost:8080'', rps = 0, duration = 60,
          concurrent_limit = 100, stats = TestStats_new\<rparr>) \<and>
   worker_rates 1 \<lparr>target_url = ''http://localhost:8080'', rps = 0, duration = 60,
          concurrent_limit = 100, stats = TestStats_new\<rparr> = [0] \<and>
   worker_interval \<lparr>target_url = ''http://localhost:8080'', rps = 0, duration = 60,
          concurrent_limit = 100, stats = TestStats_new\<rparr> = Inl ZeroDivisionError \<and>
   LoadTester_init ''http://localhost:8080'' 10 0 0 =
     Inr \<lparr>target_url = ''http://localhost:8080'', rps = 10, duration = 0,
          concurrent_limit = 0, stats = TestStats_new\<rparr> \<and>
   plan_workers \<lparr>target_url = ''http://localhost:8080'', rps = 10, duration = 0,
          concurrent_limit = 0, stats = TestStats_new\<rparr> =
     Inr (2, \<lparr>target_url = ''http://localhost:8080'', rps = 5, duration = 0,
          concurrent_limit = 0, stats = TestStats_new\<rparr>)"
  by (simp add: LoadTester_init_def rstrip_slash_def plan_workers_def py_int_def
      py_truediv_def worker_interval_def worker_rates_def Let_def)

text \<open>
  C2, amended: the configuration is not validated; the constructor fails only for a negative
  \<open>concurrency_limit\<close>. For every configuration with \<open>target_rps > 0\<close> that the constructor
  accepts, \<open>run\<close> computes a worker count of at least 1 and a positive per-worker rate
  \<open>target_rps / worker_count\<close>, so neither that division nor the worker's
  \<open>interval = 1 / per_worker_rps\<close> divides by zero.
\<close>

theorem divisions_defined_for_positive_rate:
  assumes "0 < r"
  shows "(LoadTester_init url r d c = Inl ValueError \<and> c < 0) \<or>
         (\<exists>t n w. LoadTester_init url r d c = Inr t \<and> rps t = r \<and>
            plan_workers t = Inr (n, t\<lparr>rps := w\<rparr>) \<and>
            1 \<le> n \<and> w = r / real_of_int n \<and> 0 < w \<and>
            worker_interval (t\<lparr>rps := w\<rparr>) = Inr (1 / w))"
proof (cases "c < 0")
  case True
  then show ?thesis by (simp add: LoadTester_init_def)
next
  case False
  define t where "t = \<lparr>target_url = rstrip_slash url, rps = r, duration = d,
                       concurrent_limit = c, stats = TestStats_new\<rparr>"
  define n where "n = min (\<lfloor>r / 10\<rfloor> + 1) 50"
  have init: "LoadTester_init url r d c = Inr t"
    using False by (simp add: LoadTester_init_def t_def)
  have r: "rps t = r" by (simp add: t_def)
  define w where "w = r / real_of_int n"
  have n: "1 \<le> n"
    unfolding n_def using worker_count_positive [OF assms] by (rule conjunct2)
  then have w: "0 < w" using assms by (simp add: w_def)
  have "plan_workers t = Inr (min (\<lfloor>rps t / 10\<rfloor> + 1) 50,
          t\<lparr>rps := rps t / real_of_int (min (\<lfloor>rps t / 10\<rfloor> + 1) 50)\<rparr>)"
    using assms r by (intro plan_workers_positive) simp
  then have plan: "plan_workers t = Inr (n, t\<lparr>rps := w\<rparr>)"
    by (simp only: r n_def w_def)
  have "w \<noteq> 0" using w by simp
  then have "worker_interval (t\<lparr>rps := w\<rparr>) = Inr (1 / w)"
    by (simp add: worker_interval_def py_truediv_def)
  with init r n w plan w_def show ?thesis by blast
qed

text \<open>
  The configuration \<open>{rps: 20, duration: 1, concurrency_limit: 50}\<close>: three workers at
  rate 20/3, pacing interval 3/20.
\<close>

theorem divisions_defined_for_positive_rate_witness:
  "(0::real) < 20 \<and>
   LoadTester_init ''http://localhost:8080/'' 20 1 50 =
     Inr \<lparr>target_url = ''http://localhost:8080'', rps = 20, duration = 1,
          concurrent_limit = 50, stats = TestStats_new\<rparr> \<and>
   plan_workers \<lparr>target_url = ''http://localhost:8080'', rps = 20, duration = 1,
          concurrent_limit = 50, stats = TestStats_new\<rparr> =
     Inr (3, \<lparr>target_url = ''http://localhost:8080'', rps = 20 / 3, duration = 1,
          concurrent_limit = 50, stats = TestStats_new\<rparr>) \<and>
   worker_interval \<lparr>target_url = ''http://localhost:8080'', rps = 20 / 3, duration = 1,
          concurrent_limit = 50, stats = TestStats_new\<rparr> = Inr (3 / 20)"
  using divisions_defined_for_positive_rate [of 20 "''http://localhost:8080/''" 1 50]
  by (simp add: LoadTester_init_def rstrip_slash_def plan_workers_def py_int_def
      py_truediv_def worker_interval_def Let_def)

subsection \<open>C3: worker count and per-worker rate\<close>

text \<open>
  C3: for every tester with \<open>target_rps = R > 0\<close>, \<open>run\<close> computes
  \<open>worker_count = min(floor(R / 10) + 1, 50)\<close>, gives each of the \<open>worker_count\<close> workers
  the rate \<open>R / worker_count\<close>, and the rates of all workers add up to \<open>R\<close> (exactly, over
  the reals).
\<close>

theorem worker_plan:
  assumes "0 < rps t"
  shows "\<exists>n tw. plan_workers t = Inr (n, tw) \<and>
           n = min (\<lfloor>rps t / 10\<rfloor> + 1) 50 \<and>
           rps tw = rps t / real_of_int n \<and>
           worker_rates n tw = replicate (nat n) (rps t / real_of_int n) \<and>
           int (length (worker_rates n tw)) = n \<and>
           sum_list (worker_rates n tw) = rps t"
proof -
  define n where "n = min (\<lfloor>rps t / 10\<rfloor> + 1) 50"
  define tw where "tw = t\<lparr>rps := rps t / real_of_int n\<rparr>"
  have n: "1 \<le> n"
    unfolding n_def using worker_count_positive [OF assms] by (rule conjunct2)
  have plan: "plan_workers t = Inr (n, tw)"
    unfolding tw_def n_def by (rule plan_workers_positive [OF assms])
  have rate: "rps tw = rps t / real_of_int n" by (simp add: tw_def)
  have rates: "worker_rates n tw = replicate (nat n) (rps t / real_of_int n)"
    by (simp add: worker_rates_def rate)
  have len: "int (length (worker_rates n tw)) = n" using n by (simp add: rates)
  have "real (nat n) = real_of_int n" and "real_of_int n \<noteq> 0" using n by simp_all
  then have total: "sum_list (worker_rates n tw) = rps t"
    by (simp add: rates sum_list_replicate)
  from plan rate rates len total n_def show ?thesis by blast
qed

text \<open>
  \<open>R = 20\<close> gives three workers at 20/3 each; \<open>R = 1000\<close> reaches the cap of 50 workers
  at 20 each.
\<close>

theorem worker_plan_witness:
  "(0::real) < 20 \<and>
   plan_workers \<lparr>target_url = ''http://localhost:8080'', rps = 20, duration = 1,
          concurrent_limit = 50, stats = TestStats_new\<rparr> =
     Inr (3, \<lparr>target_url = ''http://localhost:8080'', rps = 20 / 3, duration = 1,
          concurrent_limit = 50, stats = TestStats_new\<rparr>) \<and>
   worker_rates 3 \<lparr>target_url = ''http://localhost:8080'', rps = 20 / 3, duration = 1,
          concurrent_limit = 50, stats = TestStats_new\<rparr> = [20 / 3, 20 / 3, 20 / 3] \<and>
   plan_workers \<lparr>target_url = ''http://localhost:8080'', rps = 1000, duration = 1,
          concurrent_limit = 50, stats = TestStats_new\<rparr> =
     Inr (50, \<lparr>target_url = ''http://localhost:8080'', rps = 20, duration = 1,
          concurrent_limit = 50, stats = TestStats_new\<rparr>)"
  using worker_plan [of "\<lparr>target_url = ''http://localhost:8080'', rps = 20, duration = 1,
          concurrent_limit = 50, stats = TestStats_new\<rparr>"]
    worker_plan [of "\<lparr>target_url = ''http://localhost:8080'', rps = 1000, duration = 1,
          concurrent_limit = 50, stats = TestStats_new\<rparr>"]
  by (simp add: worker_rates_def numeral_3_eq_3 plan_workers_def py_int_def py_truediv_def Let_def)

subsection \<open>C4: success rate\<close>

text \<open>
  C4: for the statistics aggregated from any list of results, \<open>success_rate\<close> is
  \<open>successful_requests / total_requests \<times> 100\<close>, is 0 when \<open>total_requests = 0\<close>, and lies
  in the interval from 0 to 100; aggregation itself guarantees
  \<open>successful_requests \<le> total_requests\<close>.
\<close>

theorem success_rate_of_aggregate:
  "success_rate (aggregate rs a b) =
     (if total_requests (aggregate rs a b) = 0 then 0
      else real_of_int (successful_requests (aggregate rs a b)) /
           real_of_int (total_requests (aggregate rs a b)) * 100) \<and>
   successful_requests (aggregate rs a b) \<le> total_requests (aggregate rs a b) \<and>
   0 \<le> success_rate (aggregate rs a b) \<and> success_rate (aggregate rs a b) \<le> 100"
proof -
  have "0 \<le> successful_requests (aggregate rs a b)"
    and le: "successful_requests (aggregate rs a b) \<le> total_requests (aggregate rs a b)"
    by (simp_all add: aggregate_counts)
  then show ?thesis using success_rate_range [of "aggregate rs a b"]
    by (simp add: success_rate_def)
qed

text \<open>
  No results give the rate 0; one success out of two results gives 50.
\<close>

theorem success_rate_of_aggregate_witness:
  "success_rate (aggregate [] 0 1) = 0 \<and>
   success_rate (aggregate
     [\<lparr>success = True, latency_ms = 12, status_code = 200, error = [], timestamp = 1\<rparr>,
      \<lparr>success = False, latency_ms = 30, status_code = 404, error = [], timestamp = 2\<rparr>] 0 3) = 50"
  using success_rate_of_aggregate [of "[]" 0 1]
    success_rate_of_aggregate [of "[\<lparr>success = True, latency_ms = 12, status_code = 200, error = [], timestamp = 1\<rparr>,
      \<lparr>success = False, latency_ms = 30, status_code = 404, error = [], timestamp = 2\<rparr>]" 0 3]
  by (simp add: aggregate_counts)

subsection \<open>C5: requests per second\<close>

text \<open>
  C5: \<open>requests_per_second\<close> is \<open>total_requests / (end_time - start_time)\<close>, and 0 when
  \<open>end_time\<close> equals \<open>start_time\<close>.
\<close>

theorem requests_per_second_spec:
  "requests_per_second st =
     (if end_time st = start_time st then 0
      else real_of_int (total_requests st) / (end_time st - start_time st))"
  by (simp add: requests_per_second_def Let_def)

text \<open>
  A run of zero length gives 0; two results in four seconds give 1/2.
\<close>

theorem requests_per_second_spec_witness:
  "requests_per_second (aggregate [] 5 5) = 0 \<and>
   requests_per_second (aggregate
     [\<lparr>success = True, latency_ms = 12, status_code = 200, error = [], timestamp = 1\<rparr>,
      \<lparr>success = False, latency_ms = 30, status_code = 404, error = [], timestamp = 2\<rparr>] 1 5) = 1 / 2"
  using requests_per_second_spec [of "aggregate [] 5 5"]
   requests_per_second_spec [of "aggregate
     [\<lparr>success = True, latency_ms = 12, status_code = 200, error = [], timestamp = 1\<rparr>,
      \<lparr>success = False, latency_ms = 30, status_code = 404, error = [], timestamp = 2\<rparr>] 1 5"]
  by (simp add: aggregate_counts)

subsection \<open>C6: HTTP responses\<close>

text \<open>
  C6: when the request receives a response (the \<open>try\<close> block reaches its \<open>return\<close>),
  the result has \<open>success = (status = 200)\<close>, the status of the response and an empty
  \<open>error\<close>; when the status is not 200, its key is \<open>"HTTP {status}"\<close>, and aggregating the
  result adds one failed request and one to the count under that key, and changes no other
  count.
\<close>

theorem http_response_outcome:
  assumes "outcome ev = Response status"
  shows "\<exists>r. make_request ev = Inr r \<and>
           success r = (status = 200) \<and> status_code r = status \<and> error r = [] \<and>
           (status \<noteq> 200 \<longrightarrow>
              error_key r = ''HTTP '' @ str_int status \<and>
              failed_requests (aggregate_step st r) = failed_requests st + 1 \<and>
              errors_get (errors (aggregate_step st r)) (''HTTP '' @ str_int status) =
                errors_get (errors st) (''HTTP '' @ str_int status) + 1 \<and>
              (\<forall>k. k \<noteq> ''HTTP '' @ str_int status \<longrightarrow>
                 errors_get (errors (aggregate_step st r)) k = errors_get (errors st) k))"
proof -
  define r where "r = \<lparr>success = (status = 200), latency_ms = (finished ev - started ev) * 1000,
            status_code = status, error = [], timestamp = stamp ev\<rparr>"
  have mk: "make_request ev = Inr r"
    unfolding r_def using assms by (rule make_request_response)
  have fields: "success r = (status = 200)" "status_code r = status" "error r = []"
    by (simp_all add: r_def)
  have key: "error_key r = ''HTTP '' @ str_int status"
    by (simp add: error_key_def fields)
  have "status \<noteq> 200 \<longrightarrow>
          failed_requests (aggregate_step st r) = failed_requests st + 1 \<and>
          errors_get (errors (aggregate_step st r)) (''HTTP '' @ str_int status) =
            errors_get (errors st) (''HTTP '' @ str_int status) + 1 \<and>
          (\<forall>k. k \<noteq> ''HTTP '' @ str_int status \<longrightarrow>
             errors_get (errors (aggregate_step st r)) k = errors_get (errors st) k)"
    by (simp add: aggregate_step_failed aggregate_step_get fields key)
  with mk fields key show ?thesis by blast
qed

text \<open>
  A 404 response: \<open>success = False\<close>, empty \<open>error\<close>, counted under \<open>"HTTP 404"\<close>.
\<close>

theorem http_response_outcome_witness:
  "outcome \<lparr>outcome = Response 404, started = 2, finished = 2.25, stamp = 2.5\<rparr> = Response 404 \<and>
   make_request \<lparr>outcome = Response 404, started = 2, finished = 2.25, stamp = 2.5\<rparr> =
     Inr \<lparr>success = False, latency_ms = 250, status_code = 404, error = [], timestamp = 2.5\<rparr> \<and>
   error_key \<lparr>success = False, latency_ms = 250, status_code = 404, error = [], timestamp = 2.5\<rparr> =
     ''HTTP 404'' \<and>
   errors (aggregate
     [\<lparr>success = False, latency_ms = 250, status_code = 404, error = [], timestamp = 2.5\<rparr>] 0 3) =
     [(''HTTP 404'', 1)]"
  using http_response_outcome
    [of "\<lparr>outcome = Response 404, started = 2, finished = 2.25, stamp = 2.5\<rparr>" 404 TestStats_new]
  by (simp add: make_request_def Let_def error_key_def str_int_404 aggregate_def
      aggregate_step_def TestStats_new_def errors_get_def)

subsection \<open>C7: error counts\<close>

text \<open>
  C7: after aggregating any list of results, the counts in \<open>errors\<close> add up to
  \<open>failed_requests\<close>; the keys are distinct; the count under a key is the number of failed
  results whose key it is, where the key of a result is its \<open>error\<close> when that is not empty
  and \<open>"HTTP {status_code}"\<close> otherwise. So every failed result adds one to exactly one key and
  a successful result adds nothing.
\<close>

theorem error_counts_sum_to_failed:
  "sum_list (map snd (errors (aggregate rs a b))) = failed_requests (aggregate rs a b) \<and>
   distinct (map fst (errors (aggregate rs a b))) \<and>
   (\<forall>k. errors_get (errors (aggregate rs a b)) k =
          int (length (filter (\<lambda>r. \<not> success r \<and> error_key r = k) rs))) \<and>
   (\<forall>r. error_key r = (if error r \<noteq> [] then error r else ''HTTP '' @ str_int (status_code r)))"
proof -
  have d: "distinct (map fst (errors (TestStats_new\<lparr>start_time := a, end_time := b\<rparr>)))"
    by (simp add: TestStats_new_def)
  have "sum_list (map snd (errors (aggregate rs a b))) =
          int (length (filter (\<lambda>r. \<not> success r) rs))"
    unfolding aggregate_def using aggregate_loop_sum [OF d, of rs]
    by (simp add: TestStats_new_def)
  moreover have "failed_requests (aggregate rs a b) =
          int (length (filter (\<lambda>r. \<not> success r) rs))"
    unfolding aggregate_def by (simp add: aggregate_loop_failed TestStats_new_def)
  moreover have "distinct (map fst (errors (aggregate rs a b)))"
    unfolding aggregate_def using d by (rule aggregate_loop_distinct)
  moreover have "\<forall>k. errors_get (errors (aggregate rs a b)) k =
          int (length (filter (\<lambda>r. \<not> success r \<and> error_key r = k) rs))"
  proof -
    have "errors_get (errors (TestStats_new\<lparr>start_time := a, end_time := b\<rparr>)) k = 0" for k
      by (simp add: TestStats_new_def errors_get_def)
    then show ?thesis
      unfolding aggregate_def by (simp only: aggregate_loop_get) simp
  qed
  ultimately show ?thesis by (simp add: error_key_def)
qed

text \<open>
  One success, two 404 responses and one timeout: \<open>{"HTTP 404": 2, "timeout": 1}\<close> and
  three failed requests.
\<close>

theorem error_counts_sum_to_failed_witness:
  "errors (aggregate
     [\<lparr>success = True, latency_ms = 12, status_code = 200, error = [], timestamp = 1\<rparr>,
      \<lparr>success = False, latency_ms = 30, status_code = 404, error = [], timestamp = 2\<rparr>,
      \<lparr>success = False, latency_ms = 30000, status_code = 0, error = ''timeout'', timestamp = 3\<rparr>,
      \<lparr>success = False, latency_ms = 31, status_code = 404, error = [], timestamp = 4\<rparr>] 0 5) =
     [(''HTTP 404'', 2), (''timeout'', 1)] \<and>
   failed_requests (aggregate
     [\<lparr>success = True, latency_ms = 12, status_code = 200, error = [], timestamp = 1\<rparr>,
      \<lparr>success = False, latency_ms = 30, status_code = 404, error = [], timestamp = 2\<rparr>,
      \<lparr>success = False, latency_ms = 30000, status_code = 0, error = ''timeout'', timestamp = 3\<rparr>,
      \<lparr>success = False, latency_ms = 31, status_code = 404, error = [], timestamp = 4\<rparr>] 0 5) = 3"
  using error_counts_sum_to_failed [of
    "[\<lparr>success = True, latency_ms = 12, status_code = 200, error = [], timestamp = 1\<rparr>,
      \<lparr>success = False, latency_ms = 30, status_code = 404, error = [], timestamp = 2\<rparr>,
      \<lparr>success = False, latency_ms = 30000, status_code = 0, error = ''timeout'', timestamp = 3\<rparr>,
      \<lparr>success = False, latency_ms = 31, status_code = 404, error = [], timestamp = 4\<rparr>]" 0 5]
  by (simp add: aggregate_def aggregate_step_def Let_def TestStats_new_def error_key_def
      str_int_404 errors_get_def)

subsection \<open>C8: classification of failures\<close>

text \<open>
  C8, as stated, fails: the last handler is \<open>except Exception\<close>, so an exception that is
  not an instance of \<open>Exception\<close> (the cancellation of the task, \<open>asyncio.CancelledError\<close>,
  or \<open>KeyboardInterrupt\<close>) raised inside the \<open>try\<close> block leaves \<open>_make_request\<close> and
  ends the loop of the worker that made the request.
\<close>

theorem uncaught_exception_counterexample:
  "make_request
     \<lparr>outcome = Raised \<lparr>type_name = ''CancelledError'', message = [],
                         is_timeout_error = False, is_client_error = False,
                         is_exception = False\<rparr>,
      started = 0, finished = 1, stamp = 1\<rparr> =
   Inl (Uncaught \<lparr>type_name = ''CancelledError'', message = [],
                  is_timeout_error = False, is_client_error = False,
                  is_exception = False\<rparr>) \<and>
   worker_loop
     [\<lparr>outcome = Raised \<lparr>type_name = ''CancelledError'', message = [],
                         is_timeout_error = False, is_client_error = False,
                         is_exception = False\<rparr>,
      started = 0, finished = 1, stamp = 1\<rparr>] [] =
   Inl (Uncaught \<lparr>type_name = ''CancelledError'', message = [],
                  is_timeout_error = False, is_client_error = False,
                  is_exception = False\<rparr>)"
  by (simp add: make_request_def Let_def)

text \<open>
  C8, amended: when every exception raised by a worker's requests is an instance of
  \<open>asyncio.TimeoutError\<close>, \<open>aiohttp.ClientError\<close> or \<open>Exception\<close>, every request returns a
  result and the worker appends one result for each request, in order. A raised exception
  gives \<open>success = False\<close> and \<open>status_code = 0\<close>; the handlers apply in the order of the
  source: \<open>error = "timeout"\<close> for a timeout, else the type name for a client error, else
  \<open>str(e)\<close>.
\<close>

theorem caught_failures_classified:
  assumes "\<forall>ev \<in> set evs. caught (outcome ev)"
  shows "\<exists>new. worker_loop evs results = Inr (results @ new) \<and> length new = length evs \<and>
           (\<forall>i < length evs.
              make_request (evs ! i) = Inr (new ! i) \<and>
              (\<forall>e. outcome (evs ! i) = Raised e \<longrightarrow>
                 \<not> success (new ! i) \<and> status_code (new ! i) = 0 \<and>
                 error (new ! i) =
                   (if is_timeout_error e then ''timeout''
                    else if is_client_error e then type_name e else message e)))"
proof -
  obtain new where new: "worker_loop evs results = Inr (results @ new)"
      "length new = length evs" "\<forall>i < length evs. make_request (evs ! i) = Inr (new ! i)"
    using worker_loop_caught [OF assms] by blast
  have "\<forall>e. outcome (evs ! i) = Raised e \<longrightarrow>
                 \<not> success (new ! i) \<and> status_code (new ! i) = 0 \<and>
                 error (new ! i) =
                   (if is_timeout_error e then ''timeout''
                    else if is_client_error e then type_name e else message e)"
    if i: "i < length evs" for i
  proof -
    have "caught (outcome (evs ! i))" using assms i by simp
    from make_request_caught [OF this] new(3) i show ?thesis by auto
  qed
  with new show ?thesis by blast
qed

text \<open>
  A worker whose requests raise a timeout that is also a client error, a connection error
  and a \<open>ValueError\<close>, and then receive a 200 response: four results, the first with
  \<open>error = "timeout"\<close>.
\<close>

theorem caught_failures_classified_witness:
  "list_all (\<lambda>ev. caught (outcome ev))
     [\<lparr>outcome = Raised \<lparr>type_name = ''ServerTimeoutError'', message = ''Timeout on reading data'',
                         is_timeout_error = True, is_client_error = True, is_exception = True\<rparr>,
       started = 0, finished = 30, stamp = 30\<rparr>,
      \<lparr>outcome = Raised \<lparr>type_name = ''ClientConnectorError'', message = ''Cannot connect to host'',
                         is_timeout_error = False, is_client_error = True, is_exception = True\<rparr>,
       started = 31, finished = 32, stamp = 32\<rparr>,
      \<lparr>outcome = Raised \<lparr>type_name = ''ValueError'', message = ''bad payload'',
                         is_timeout_error = False, is_client_error = False, is_exception = True\<rparr>,
       started = 33, finished = 34, stamp = 34\<rparr>,
      \<lparr>outcome = Response 200, started = 35, finished = 36, stamp = 36\<rparr>] \<and>
   worker_loop
     [\<lparr>outcome = Raised \<lparr>type_name = ''ServerTimeoutError'', message = ''Timeout on reading data'',
                         is_timeout_error = True, is_client_error = True, is_exception = True\<rparr>,
       started = 0, finished = 30, stamp = 30\<rparr>,
      \<lparr>outcome = Raised \<lparr>type_name = ''ClientConnectorError'', message = ''Cannot connect to host'',
                         is_timeout_error = False, is_client_error = True, is_exception = True\<rparr>,
       started = 31, finished = 32, stamp = 32\<rparr>,
      \<lparr>outcome = Raised \<lparr>type_name = ''ValueError'', message = ''bad payload'',
                         is_timeout_error = False, is_client_error = False, is_exception = True\<rparr>,
       started = 33, finished = 34, stamp = 34\<rparr>,
      \<lparr>outcome = Response 200, started = 35, finished = 36, stamp = 36\<rparr>] [] =
   Inr [\<lparr>success = False, latency_ms = 30000, status_code = 0, error = ''timeout'', timestamp = 30\<rparr>,
        \<lparr>success = False, latency_ms = 1000, status_code = 0, error = ''ClientConnectorError'', timestamp = 32\<rparr>,
        \<lparr>success = False, latency_ms = 1000, status_code = 0, error = ''bad payload'', timestamp = 34\<rparr>,
        \<lparr>success = True, latency_ms = 1000, status_code = 200, error = [], timestamp = 36\<rparr>]"
  using caught_failures_classified [of
     "[\<lparr>outcome = Raised \<lparr>type_name = ''ServerTimeoutError'', message = ''Timeout on reading data'',
                         is_timeout_error = True, is_client_error = True, is_exception = True\<rparr>,
       started = 0, finished = 30, stamp = 30\<rparr>,
      \<lparr>outcome = Raised \<lparr>type_name = ''ClientConnectorError'', message = ''Cannot connect to host'',
                         is_timeout_error = False, is_client_error = True, is_exception = True\<rparr>,
       started = 31, finished = 32, stamp = 32\<rparr>,
      \<lparr>outcome = Raised \<lparr>type_name = ''ValueError'', message = ''bad payload'',
                         is_timeout_error = False, is_client_error = False, is_exception = True\<rparr>,
       started = 33, finished = 34, stamp = 34\<rparr>,
      \<lparr>outcome = Response 200, started = 35, finished = 36, stamp = 36\<rparr>]" "[]"]
  by (simp add: make_request_def Let_def)

subsection \<open>C9: latency metrics of an empty sample\<close>

text \<open>
  C9: when \<open>latencies\<close> is empty, \<open>avg_latency\<close>, \<open>p50_latency\<close>, \<open>p95_latency\<close> and
  \<open>p99_latency\<close> all return 0 and none raises; aggregating zero results leaves \<open>latencies\<close>
  empty.
\<close>

theorem empty_sample_latency_metrics:
  "(latencies st = [] \<longrightarrow>
      avg_latency st = Inr 0 \<and> p50_latency st = Inr 0 \<and>
      p95_latency st = Inr 0 \<and> p99_latency st = Inr 0) \<and>
   latencies (aggregate [] a b) = []"
  by (simp add: avg_latency_def p50_latency_def p95_latency_def p99_latency_def aggregate_counts)

text \<open>
  The statistics of a run without results.
\<close>

theorem empty_sample_latency_metrics_witness:
  "avg_latency (aggregate [] 0 1) = Inr 0 \<and> p50_latency (aggregate [] 0 1) = Inr 0 \<and>
   p95_latency (aggregate [] 0 1) = Inr 0 \<and> p99_latency (aggregate [] 0 1) = Inr 0"
  using empty_sample_latency_metrics [of "aggregate [] 0 1" 0 1] by simp

subsection \<open>C10: counts after aggregation\<close>

text \<open>
  C10: after aggregating any list of results, \<open>total_requests\<close> is
  \<open>successful_requests + failed_requests\<close> and is the length of \<open>latencies\<close>: every result
  contributes its latency, in order, and is counted as successful or as failed, never both.
\<close>

theorem aggregate_counts_consistent:
  "total_requests (aggregate rs a b) =
     successful_requests (aggregate rs a b) + failed_requests (aggregate rs a b) \<and>
   total_requests (aggregate rs a b) = int (length (latencies (aggregate rs a b))) \<and>
   total_requests (aggregate rs a b) = int (length rs) \<and>
   latencies (aggregate rs a b) = map latency_ms rs \<and>
   successful_requests (aggregate rs a b) = int (length (filter success rs)) \<and>
   failed_requests (aggregate rs a b) = int (length (filter (\<lambda>r. \<not> success r) rs))"
  using filter_split_length [of success rs] by (simp add: aggregate_counts)

text \<open>
  Three results, one of them successful.
\<close>

theorem aggregate_counts_consistent_witness:
  "total_requests (aggregate
     [\<lparr>success = True, latency_ms = 12, status_code = 200, error = [], timestamp = 1\<rparr>,
      \<lparr>success = False, latency_ms = 30, status_code = 404, error = [], timestamp = 2\<rparr>,
      \<lparr>success = False, latency_ms = 30000, status_code = 0, error = ''timeout'', timestamp = 3\<rparr>] 0 4) = 3 \<and>
   successful_requests (aggregate
     [\<lparr>success = True, latency_ms = 12, status_code = 200, error = [], timestamp = 1\<rparr>,
      \<lparr>success = False, latency_ms = 30, status_code = 404, error = [], timestamp = 2\<rparr>,
      \<lparr>success = False, latency_ms = 30000, status_code = 0, error = ''timeout'', timestamp = 3\<rparr>] 0 4) = 1 \<and>
   failed_requests (aggregate
     [\<lparr>success = True, latency_ms = 12, status_code = 200, error = [], timestamp = 1\<rparr>,
      \<lparr>success = False, latency_ms = 30, status_code = 404, error = [], timestamp = 2\<rparr>,
      \<lparr>success = False, latency_ms = 30000, status_code = 0, error = ''timeout'', timestamp = 3\<rparr>] 0 4) = 2 \<and>
   latencies (aggregate
     [\<lparr>success = True, latency_ms = 12, status_code = 200, error = [], timestamp = 1\<rparr>,
      \<lparr>success = False, latency_ms = 30, status_code = 404, error = [], timestamp = 2\<rparr>,
      \<lparr>success = False, latency_ms = 30000, status_code = 0, error = ''timeout'', timestamp = 3\<rparr>] 0 4) = [12, 30, 30000]"
  using aggregate_counts_consistent [of "[\<lparr>success = True, latency_ms = 12, status_code = 200, error = [], timestamp = 1\<rparr>,
      \<lparr>success = False, latency_ms = 30, status_code = 404, error = [], timestamp = 2\<rparr>,
      \<lparr>success = False, latency_ms = 30000, status_code = 0, error = ''timeout'', timestamp = 3\<rparr>]" 0 4]
  by simp

end
